theory Spec2Isabelle
  imports Complex_Main
begin

section \<open>PyOBSim: the order book of \<^verbatim>\<open>pyobsim/book.py\<close>\<close>

text \<open>
  The class \<^verbatim>\<open>Book\<close> of \<^verbatim>\<open>pyobsim/book.py\<close> is embedded function by function.
  Python objects that the book shares with its caller and with its two sides (the
  \<^verbatim>\<open>Order\<close> objects) live in an explicit store, addressed by references, because the
  book mutates them in place (\<^verbatim>\<open>order.qty -= amt\<close>, \<^verbatim>\<open>order.oid = oid\<close>) while they rest
  in a side. Exceptions are values: every method returns an outcome that is either
  \<open>Raised e s\<close> or \<open>Returned v s\<close>, with the state \<open>s\<close> the call leaves behind.
  Prices and balances are exact numbers (the fixed-point currency unit of the
  specification), quantities and identifiers are Python integers.
\<close>

subsection \<open>Data\<close>

type_synonym ref = nat

text \<open>
  Modelled from the spec: the classes \<^verbatim>\<open>Order\<close> and \<^verbatim>\<open>Participant\<close> are not among the
  sources. The records hold the attributes that \<^verbatim>\<open>book.py\<close> reads and writes
  (\<^verbatim>\<open>oid\<close>, \<^verbatim>\<open>owner\<close>, \<^verbatim>\<open>otype\<close>, \<^verbatim>\<open>price\<close>, \<^verbatim>\<open>qty\<close> of an order; \<^verbatim>\<open>name\<close>, \<^verbatim>\<open>balance\<close>,
  \<^verbatim>\<open>volume\<close> of a participant, the last being the position) and the symbol tag of
  section 3. The owner of an order is the key under which the book looks the submitter
  up, the participant's name.
\<close>

record order =
  oid :: int
  owner :: string
  otype :: string
  symbol :: string
  price :: rat
  qty :: int

record participant =
  name :: string
  balance :: rat
  volume :: int

text \<open>
  The exception classes \<^verbatim>\<open>book.py\<close> imports from \<^verbatim>\<open>errors\<close> (lines 5-6), and the
  built-in exceptions that its statements can raise: \<^verbatim>\<open>KeyError\<close> for a dictionary
  lookup of an absent key, \<^verbatim>\<open>NameError\<close> for a global name that is bound nowhere in the
  module, \<^verbatim>\<open>UnboundLocalError\<close> for a local variable read before assignment.
\<close>

datatype error =
  InsufficientFundsError
| InsufficientVolumeError
| PriceOutOfRangeError
| NoPriceError
| ParticipantAlreadyExistsError
| KeyError string
| NameError string
| UnboundLocalError string

text \<open>
  Modelled from the spec: the class \<^verbatim>\<open>Side\<close> (\<^verbatim>\<open>pyobsim/side.py\<close>) is not among the
  sources. Section 3 describes a side as a direction tag and an ordered mapping from
  price to a FIFO queue of the orders resting at that price. It is kept here as the tag
  and the orders resting on the side in arrival order; the queue at a price is the
  sub-list of the orders with that price, so an order always sits in the level of its
  own price and a level exists exactly when an order rests at its price.
\<close>

record side =
  stype :: string
  resting :: "ref list"

text \<open>
  The state: the store of \<^verbatim>\<open>Order\<close> objects and the private attributes of the
  \<^verbatim>\<open>Book\<close> object (\<^verbatim>\<open>__name\<close>, \<^verbatim>\<open>__participants\<close>, \<^verbatim>\<open>__params\<close>, \<^verbatim>\<open>__bids\<close>,
  \<^verbatim>\<open>__asks\<close>, \<^verbatim>\<open>__LTP\<close>). The type \<open>'v\<close> is the type of the parameter values.
\<close>

record 'v book =
  objs :: "ref \<Rightarrow> order"
  priv_name :: string
  priv_participants :: "string \<rightharpoonup> participant"
  priv_params :: "string \<rightharpoonup> 'v"
  priv_bids :: side
  priv_asks :: side
  priv_LTP :: rat

datatype ('a, 'v) outcome =
  Raised error "'v book"
| Returned 'a "'v book"

subsection \<open>Side\<close>

text \<open>
  Modelled from the spec: the methods of \<^verbatim>\<open>Side\<close> that \<^verbatim>\<open>book.py\<close> calls, after
  section 4.1. \<open>side_prices\<close> is \<^verbatim>\<open>prices\<close>, the distinct resting prices best first
  (highest first for the bid side, lowest first for the ask side); \<open>side_best\<close> is
  \<^verbatim>\<open>best\<close>, which fails with \<^verbatim>\<open>NoPriceError\<close> on an empty side; \<open>side_get\<close> is
  \<^verbatim>\<open>get\<close>, the queue at a price, oldest first, as it is when the call is made, and
  \<^verbatim>\<open>NoPriceError\<close> when no order rests at that price; \<open>side_put\<close> is \<^verbatim>\<open>put\<close>, which
  appends to the queue of the order's price; \<open>side_remove\<close> is \<^verbatim>\<open>remove\<close>, which
  removes the identifier wherever it rests and does nothing when it is absent;
  \<open>side_volume\<close> and \<open>side_depth\<close> are the aggregate views. The store is an argument
  because prices, quantities and identifiers are read from the order objects.
\<close>

definition side_prices :: "(ref \<Rightarrow> order) \<Rightarrow> side \<Rightarrow> rat list" where
  "side_prices h s =
     (let ps = sort (remdups (map (\<lambda>r. price (h r)) (resting s)))
      in if stype s = ''BID'' then rev ps else ps)"

definition side_best :: "(ref \<Rightarrow> order) \<Rightarrow> side \<Rightarrow> error + rat" where
  "side_best h s = (case side_prices h s of [] \<Rightarrow> Inl NoPriceError | p # _ \<Rightarrow> Inr p)"

definition side_get :: "(ref \<Rightarrow> order) \<Rightarrow> side \<Rightarrow> rat \<Rightarrow> error + ref list" where
  "side_get h s p =
     (case filter (\<lambda>r. price (h r) = p) (resting s) of
        [] \<Rightarrow> Inl NoPriceError
      | r # rs \<Rightarrow> Inr (r # rs))"

definition side_put :: "side \<Rightarrow> ref \<Rightarrow> side" where
  "side_put s r = s\<lparr>resting := resting s @ [r]\<rparr>"

definition side_remove :: "(ref \<Rightarrow> order) \<Rightarrow> side \<Rightarrow> int \<Rightarrow> side" where
  "side_remove h s i = s\<lparr>resting := filter (\<lambda>r. oid (h r) \<noteq> i) (resting s)\<rparr>"

definition side_volume :: "(ref \<Rightarrow> order) \<Rightarrow> side \<Rightarrow> int" where
  "side_volume h s = sum_list (map (\<lambda>r. qty (h r)) (resting s))"

definition side_depth :: "(ref \<Rightarrow> order) \<Rightarrow> side \<Rightarrow> nat" where
  "side_depth h s = length (side_prices h s)"

subsection \<open>Book: properties and parameters\<close>

text \<open>
  \<^verbatim>\<open>participants\<close> (lines 36-38) returns \<^verbatim>\<open>deepcopy(self.__participants)\<close>: a new
  dictionary of new participant objects with the same contents. As a value it is the
  stored map; what the copy means is that a change made to the returned value is a
  change to a temporary, which the functions below compute and do not store.
\<close>

definition participants :: "'v book \<Rightarrow> (string \<rightharpoonup> participant)" where
  "participants b = priv_participants b"

definition bids :: "'v book \<Rightarrow> side" where
  "bids b = priv_bids b"

definition asks :: "'v book \<Rightarrow> side" where
  "asks b = priv_asks b"

definition book_volume :: "'v book \<Rightarrow> int \<times> int" where
  "book_volume b = (side_volume (objs b) (bids b), side_volume (objs b) (asks b))"

definition book_depth :: "'v book \<Rightarrow> nat \<times> nat" where
  "book_depth b = (side_depth (objs b) (bids b), side_depth (objs b) (asks b))"

definition LTP :: "'v book \<Rightarrow> rat" where
  "LTP b = priv_LTP b"

text \<open>
  \<^verbatim>\<open>set_param\<close> and \<^verbatim>\<open>get_param\<close> (lines 68-78). The name \<^verbatim>\<open>NoSuchParameterError\<close> is
  not among the names imported at lines 5-6 and is bound nowhere else in the module, so
  evaluating \<^verbatim>\<open>raise NoSuchParameterError()\<close> raises \<^verbatim>\<open>NameError\<close>.
\<close>

definition set_param :: "'v book \<Rightarrow> string \<Rightarrow> 'v \<Rightarrow> (unit, 'v) outcome" where
  "set_param b n v =
     (if n \<notin> dom (priv_params b) then Raised (NameError ''NoSuchParameterError'') b
      else Returned () (b\<lparr>priv_params := (priv_params b)(n \<mapsto> v)\<rparr>))"

definition get_param :: "'v book \<Rightarrow> string \<Rightarrow> ('v, 'v) outcome" where
  "get_param b n =
     (case priv_params b n of
        None \<Rightarrow> Raised (NameError ''NoSuchParameterError'') b
      | Some v \<Rightarrow> Returned v b)"

text \<open>
  \<^verbatim>\<open>add_participant\<close> (lines 80-84): the membership test reads the stored dictionary,
  the insertion \<^verbatim>\<open>self.participants[participant.name] = participant\<close> writes into the
  copy that the property returns. \<open>add_participant_copy\<close> is that temporary.
\<close>

definition add_participant_copy :: "'v book \<Rightarrow> participant \<Rightarrow> (string \<rightharpoonup> participant)" where
  "add_participant_copy b p = (participants b)(name p \<mapsto> p)"

definition add_participant :: "'v book \<Rightarrow> participant \<Rightarrow> (unit, 'v) outcome" where
  "add_participant b p =
     (if name p \<in> dom (priv_participants b) then Raised ParticipantAlreadyExistsError b
      else (let tmp = add_participant_copy b p in Returned () b))"

subsection \<open>Book: settlement and execution\<close>

text \<open>
  Python's test \<^verbatim>\<open>if amt:\<close> on an argument that is \<^verbatim>\<open>None\<close> or an integer: \<^verbatim>\<open>None\<close>
  and \<^verbatim>\<open>0\<close> are false.
\<close>

fun truthy :: "int option \<Rightarrow> bool" where
  "truthy None = False"
| "truthy (Some a) = (a \<noteq> 0)"

text \<open>
  One augmented assignment of \<^verbatim>\<open>_payout\<close>, such as
  \<^verbatim>\<open>self.participants[order.owner].balance -= order.price * amt\<close>: the property is
  evaluated (a fresh deep copy), the owner is looked up in the copy (\<^verbatim>\<open>KeyError\<close> when
  absent), and the attribute of the copied participant is updated. The result is the
  copy after the assignment.
\<close>

definition add_balance ::
  "(string \<rightharpoonup> participant) \<Rightarrow> string \<Rightarrow> rat \<Rightarrow> error + (string \<rightharpoonup> participant)" where
  "add_balance ps k d =
     (case ps k of
        None \<Rightarrow> Inl (KeyError k)
      | Some p \<Rightarrow> Inr (ps(k \<mapsto> p\<lparr>balance := balance p + d\<rparr>)))"

definition add_volume ::
  "(string \<rightharpoonup> participant) \<Rightarrow> string \<Rightarrow> int \<Rightarrow> error + (string \<rightharpoonup> participant)" where
  "add_volume ps k d =
     (case ps k of
        None \<Rightarrow> Inl (KeyError k)
      | Some p \<Rightarrow> Inr (ps(k \<mapsto> p\<lparr>volume := volume p + d\<rparr>)))"

text \<open>
  The two assignments of one branch of \<^verbatim>\<open>_payout\<close>. Each evaluates
  \<^verbatim>\<open>self.participants\<close> anew, so each works on its own copy of the stored map; the
  result lists the two copies as the assignments leave them.
\<close>

definition settle ::
  "'v book \<Rightarrow> string \<Rightarrow> rat \<Rightarrow> int \<Rightarrow> error + (string \<rightharpoonup> participant) list" where
  "settle b k db dv =
     (case add_balance (participants b) k db of
        Inl e \<Rightarrow> Inl e
      | Inr c1 \<Rightarrow>
          (case add_volume (participants b) k dv of
             Inl e \<Rightarrow> Inl e
           | Inr c2 \<Rightarrow> Inr [c1, c2]))"

text \<open>
  \<^verbatim>\<open>_payout\<close> (lines 145-159). It returns nothing and stores nothing: what it yields
  here is the exception, if any, or the temporaries it has updated.
\<close>

definition payout ::
  "'v book \<Rightarrow> side \<Rightarrow> order \<Rightarrow> int option \<Rightarrow> error + (string \<rightharpoonup> participant) list" where
  "payout b sd order amt =
     (if stype sd = ''BID'' then
        (if truthy amt
         then settle b (owner order) (- (price order * of_int (the amt))) (the amt)
         else settle b (owner order) (- (price order * of_int (qty order))) (qty order))
      else if stype sd = ''ASK'' then
        (if truthy amt
         then settle b (owner order) (price order * of_int (the amt)) (- the amt)
         else settle b (owner order) (price order * of_int (qty order)) (- qty order))
      else Inr [])"

definition set_qty :: "'v book \<Rightarrow> ref \<Rightarrow> int \<Rightarrow> 'v book" where
  "set_qty b r q = b\<lparr>objs := (objs b)(r := (objs b r)\<lparr>qty := q\<rparr>)\<rparr>"

definition set_oid :: "'v book \<Rightarrow> ref \<Rightarrow> int \<Rightarrow> 'v book" where
  "set_oid b r i = b\<lparr>objs := (objs b)(r := (objs b r)\<lparr>oid := i\<rparr>)\<rparr>"

text \<open>\<^verbatim>\<open>execute\<close> (lines 203-219), on the order object at reference \<open>r\<close>.\<close>

definition execute :: "'v book \<Rightarrow> ref \<Rightarrow> int option \<Rightarrow> (unit, 'v) outcome" where
  "execute b r amt =
     (let order = objs b r in
      if truthy amt then
        (if otype order = ''BID'' then
           (case payout b (bids b) order amt of
              Inl e \<Rightarrow> Raised e b
            | Inr _ \<Rightarrow> Returned () ((set_qty b r (qty order - the amt))\<lparr>priv_LTP := price order\<rparr>))
         else if otype order = ''ASK'' then
           (case payout b (asks b) order amt of
              Inl e \<Rightarrow> Raised e b
            | Inr _ \<Rightarrow> Returned () ((set_qty b r (qty order - the amt))\<lparr>priv_LTP := price order\<rparr>))
         else Returned () (b\<lparr>priv_LTP := price order\<rparr>))
      else
        (if otype order = ''BID'' then
           (case payout b (bids b) order None of
              Inl e \<Rightarrow> Raised e b
            | Inr _ \<Rightarrow>
                Returned () (b\<lparr>priv_bids := side_remove (objs b) (bids b) (oid order),
                               priv_LTP := price order\<rparr>))
         else if otype order = ''ASK'' then
           (case payout b (asks b) order None of
              Inl e \<Rightarrow> Raised e b
            | Inr _ \<Rightarrow>
                Returned () (b\<lparr>priv_asks := side_remove (objs b) (asks b) (oid order),
                               priv_LTP := price order\<rparr>))
         else Returned () (b\<lparr>priv_LTP := price order\<rparr>)))"

subsection \<open>Book: matching\<close>

text \<open>
  The loops of \<^verbatim>\<open>_match\<close> (lines 107-137), innermost first. The argument
  \<open>counter_side\<close> is the property that reads the opposing side (\<open>bids\<close> or \<open>asks\<close>), so
  that each use sees the side as the executions so far have left it.

  \<open>for_orders\<close> is \<^verbatim>\<open>for o in level\<close> (lines 116-129) over the queue that \<^verbatim>\<open>get\<close>
  returned; it yields \<^verbatim>\<open>True\<close> when it leaves through a \<^verbatim>\<open>break\<close> with \<^verbatim>\<open>matched\<close> set
  and \<^verbatim>\<open>False\<close> when the queue is exhausted.
\<close>

fun for_orders :: "'v book \<Rightarrow> ref \<Rightarrow> ref list \<Rightarrow> (bool, 'v) outcome" where
  "for_orders b r [] = Returned False b"
| "for_orders b r (x # xs) =
     (if qty (objs b r) < qty (objs b x) then
        (case execute b r None of
           Raised e b1 \<Rightarrow> Raised e b1
         | Returned _ b1 \<Rightarrow>
             (case execute b1 x (Some (qty (objs b1 r))) of
                Raised e b2 \<Rightarrow> Raised e b2
              | Returned _ b2 \<Rightarrow> Returned True b2))
      else if qty (objs b r) = qty (objs b x) then
        (case execute b r None of
           Raised e b1 \<Rightarrow> Raised e b1
         | Returned _ b1 \<Rightarrow>
             (case execute b1 x None of
                Raised e b2 \<Rightarrow> Raised e b2
              | Returned _ b2 \<Rightarrow> Returned True b2))
      else
        (case execute b r (Some (qty (objs b x))) of
           Raised e b1 \<Rightarrow> Raised e b1
         | Returned _ b1 \<Rightarrow>
             (case execute b1 x None of
                Raised e b2 \<Rightarrow> Raised e b2
              | Returned _ b2 \<Rightarrow> for_orders b2 r xs)))"

text \<open>
  \<open>while_level\<close> is \<^verbatim>\<open>while not matched\<close> (lines 110-129) at one price. The loop has
  no bound of its own, so the function is partial: \<open>None\<close> is a loop that never ends.
  The last argument is the local variable \<^verbatim>\<open>level\<close>, \<open>None\<close> while it is unassigned;
  the result is the value of \<^verbatim>\<open>matched\<close> and of \<^verbatim>\<open>level\<close> when the loop is left.
\<close>

partial_function (option) while_level ::
  "'v book \<Rightarrow> ('v book \<Rightarrow> side) \<Rightarrow> ref \<Rightarrow> rat \<Rightarrow> ref list option
     \<Rightarrow> (bool \<times> ref list option, 'v) outcome option" where
  "while_level b counter_side r p level =
     (case side_get (objs b) (counter_side b) p of
        Inl e \<Rightarrow>
          (if e = NoPriceError then Some (Returned (False, level) b) else Some (Raised e b))
      | Inr lv \<Rightarrow>
          (case for_orders b r lv of
             Raised e b1 \<Rightarrow> Some (Raised e b1)
           | Returned matched b1 \<Rightarrow>
               (if matched then Some (Returned (True, Some lv) b1)
                else while_level b1 counter_side r p (Some lv))))"

text \<open>
  \<open>for_prices\<close> is \<^verbatim>\<open>for price in counter_side.prices\<close> (lines 107-137), over the
  prices as they are when the loop starts.
\<close>

fun for_prices ::
  "'v book \<Rightarrow> ('v book \<Rightarrow> side) \<Rightarrow> ref \<Rightarrow> rat list \<Rightarrow> ref list option
     \<Rightarrow> (unit, 'v) outcome option" where
  "for_prices b counter_side r [] level = Some (Returned () b)"
| "for_prices b counter_side r (p # ps) level =
     (case while_level b counter_side r p level of
        None \<Rightarrow> None
      | Some (Raised e b1) \<Rightarrow> Some (Raised e b1)
      | Some (Returned (matched, level1) b1) \<Rightarrow>
          (if matched then Some (Returned () b1)
           else
             (case level1 of
                None \<Rightarrow> Some (Raised (UnboundLocalError ''level'') b1)
              | Some lv \<Rightarrow>
                  (if length lv = 0 then Some (Returned () b1)
                   else for_prices b1 counter_side r ps level1))))"

text \<open>
  The price test of \<^verbatim>\<open>_match\<close> (lines 93-102): the value of \<^verbatim>\<open>good_price\<close>, the
  exception of \<^verbatim>\<open>best\<close>, or no assignment at all when the side is tagged neither
  \<^verbatim>\<open>BID\<close> nor \<^verbatim>\<open>ASK\<close>.
\<close>

definition good_price :: "'v book \<Rightarrow> side \<Rightarrow> order \<Rightarrow> error + bool" where
  "good_price b sd order =
     (if stype sd = ''BID'' then
        (case side_best (objs b) sd of
           Inl e \<Rightarrow> Inl e
         | Inr bp \<Rightarrow> Inr (price order \<le> bp))
      else if stype sd = ''ASK'' then
        (case side_best (objs b) sd of
           Inl e \<Rightarrow> Inl e
         | Inr bp \<Rightarrow> Inr (price order \<ge> bp))
      else Inl (UnboundLocalError ''good_price''))"

text \<open>\<^verbatim>\<open>_match\<close> (lines 92-143).\<close>

definition book_match ::
  "'v book \<Rightarrow> ('v book \<Rightarrow> side) \<Rightarrow> ref \<Rightarrow> (unit, 'v) outcome option" where
  "book_match b counter_side r =
     (case good_price b (counter_side b) (objs b r) of
        Inl e \<Rightarrow> Some (Raised e b)
      | Inr good \<Rightarrow>
          (if good then
             (if qty (objs b r) \<le> side_volume (objs b) (counter_side b) then
                for_prices b counter_side r (side_prices (objs b) (counter_side b)) None
              else Some (Raised InsufficientVolumeError b))
           else Some (Raised PriceOutOfRangeError b)))"

subsection \<open>Book: admission and cancellation\<close>

text \<open>
  The body shared by the four exception handlers of \<^verbatim>\<open>add\<close> (lines 167-172, 174-179,
  187-192, 194-199): the identifier is computed from the volumes, stored on the order,
  and the order is put on its own side.
\<close>

definition rest_bid :: "'v book \<Rightarrow> ref \<Rightarrow> (int option, 'v) outcome" where
  "rest_bid b r =
     (let i = fst (book_volume b) + snd (book_volume b) + 1;
          b1 = set_oid b r i
      in Returned (Some i) (b1\<lparr>priv_bids := side_put (bids b1) r\<rparr>))"

definition rest_ask :: "'v book \<Rightarrow> ref \<Rightarrow> (int option, 'v) outcome" where
  "rest_ask b r =
     (let i = fst (book_volume b) + snd (book_volume b) + 1;
          b1 = set_oid b r i
      in Returned (Some i) (b1\<lparr>priv_asks := side_put (asks b1) r\<rparr>))"

text \<open>
  \<^verbatim>\<open>add\<close> (lines 161-201). The result \<open>None\<close> inside \<open>Returned\<close> is Python's \<^verbatim>\<open>None\<close>:
  the call falls off the end of the function.
\<close>

definition add :: "'v book \<Rightarrow> ref \<Rightarrow> (int option, 'v) outcome option" where
  "add b r =
     (let order = objs b r in
      if otype order = ''BID'' then
        (case participants b (owner order) of
           None \<Rightarrow> Some (Raised (KeyError (owner order)) b)
         | Some p \<Rightarrow>
             (if price order * of_int (qty order) \<le> balance p then
                (case book_match b asks r of
                   None \<Rightarrow> None
                 | Some (Raised e b1) \<Rightarrow>
                     (if e = InsufficientVolumeError then Some (rest_bid b1 r)
                      else if e = PriceOutOfRangeError then Some (rest_bid b1 r)
                      else Some (Raised e b1))
                 | Some (Returned _ b1) \<Rightarrow> Some (Returned None b1))
              else Some (Raised InsufficientFundsError b)))
      else if otype order = ''ASK'' then
        (case participants b (owner order) of
           None \<Rightarrow> Some (Raised (KeyError (owner order)) b)
         | Some p \<Rightarrow>
             (if qty order \<le> volume p then
                (case book_match b bids r of
                   None \<Rightarrow> None
                 | Some (Raised e b1) \<Rightarrow>
                     (if e = InsufficientVolumeError then Some (rest_ask b1 r)
                      else if e = PriceOutOfRangeError then Some (rest_ask b1 r)
                      else Some (Raised e b1))
                 | Some (Returned _ b1) \<Rightarrow> Some (Returned None b1))
              else Some (Raised InsufficientFundsError b)))
      else Some (Returned None b))"

text \<open>\<^verbatim>\<open>cancel\<close> (lines 221-223).\<close>

definition cancel :: "'v book \<Rightarrow> int \<Rightarrow> (unit, 'v) outcome" where
  "cancel b i =
     (let b1 = b\<lparr>priv_bids := side_remove (objs b) (bids b) i\<rparr>;
          b2 = b1\<lparr>priv_asks := side_remove (objs b1) (asks b1) i\<rparr>
      in Returned () b2)"

subsection \<open>Construction\<close>

text \<open>
  \<^verbatim>\<open>__init__\<close> (lines 10-26). The first argument is the store of the order objects
  that exist when the book is built; \<open>params = None\<close> is the default argument.
\<close>

definition init_book ::
  "(ref \<Rightarrow> order) \<Rightarrow> string \<Rightarrow> participant list \<Rightarrow> (string \<rightharpoonup> 'v) option \<Rightarrow> 'v book" where
  "init_book h n ps params =
     \<lparr>objs = h,
      priv_name = n,
      priv_participants = fold (\<lambda>p m. m(name p \<mapsto> p)) ps Map.empty,
      priv_params = (case params of None \<Rightarrow> Map.empty | Some m \<Rightarrow> m),
      priv_bids = \<lparr>stype = ''BID'', resting = []\<rparr>,
      priv_asks = \<lparr>stype = ''ASK'', resting = []\<rparr>,
      priv_LTP = 0\<rparr>"

section \<open>Vocabulary of the specification\<close>

text \<open>
  The opposing side and the own side of an order with side tag \<open>t\<close>, as \<^verbatim>\<open>add\<close> chooses
  them: a \<^verbatim>\<open>BID\<close> is matched against the asks and rests on the bids, an \<^verbatim>\<open>ASK\<close> the
  other way round.
\<close>

definition opposing :: "string \<Rightarrow> 'v book \<Rightarrow> side" where
  "opposing t = (if t = ''BID'' then asks else bids)"

definition own :: "string \<Rightarrow> 'v book \<Rightarrow> side" where
  "own t = (if t = ''BID'' then bids else asks)"

text \<open>
  An order is admitted when it passes the funds check of section 4.2: its submitter is
  registered, and a \<^verbatim>\<open>BID\<close> costs no more than the submitter's balance, an \<^verbatim>\<open>ASK\<close>
  offers no more than the submitter's position.
\<close>

definition admitted :: "'v book \<Rightarrow> ref \<Rightarrow> bool" where
  "admitted b r =
     (case participants b (owner (objs b r)) of
        None \<Rightarrow> False
      | Some p \<Rightarrow>
          (otype (objs b r) = ''BID''
             \<and> price (objs b r) * of_int (qty (objs b r)) \<le> balance p)
          \<or> (otype (objs b r) = ''ASK'' \<and> qty (objs b r) \<le> volume p))"

text \<open>
  The two sides carry the tags that \<^verbatim>\<open>__init__\<close> gives them; no method of the book
  changes a tag.
\<close>

definition tagged :: "'v book \<Rightarrow> bool" where
  "tagged b = (stype (bids b) = ''BID'' \<and> stype (asks b) = ''ASK'')"

text \<open>The state an outcome leaves behind.\<close>

fun final :: "('a, 'v) outcome \<Rightarrow> 'v book" where
  "final (Raised e b) = b"
| "final (Returned v b) = b"

text \<open>
  What execution and matching can do to a book: the name, the participants, the
  parameters and the tags stay, no order is added to a side, and of an order object
  only the quantity changes.
\<close>

definition evolves :: "'v book \<Rightarrow> 'v book \<Rightarrow> bool" where
  "evolves b b' =
     (priv_name b' = priv_name b
      \<and> priv_participants b' = priv_participants b
      \<and> priv_params b' = priv_params b
      \<and> stype (priv_bids b') = stype (priv_bids b)
      \<and> stype (priv_asks b') = stype (priv_asks b)
      \<and> set (resting (priv_bids b')) \<subseteq> set (resting (priv_bids b))
      \<and> set (resting (priv_asks b')) \<subseteq> set (resting (priv_asks b))
      \<and> (\<forall>x. (objs b' x)\<lparr>qty := 0\<rparr> = (objs b x)\<lparr>qty := 0\<rparr>))"

text \<open>
  Resting the order at \<open>r\<close> with identifier \<open>i\<close> (section 4.2): the identifier is the sum
  of the two volumes plus one and is stored on the order, the order is put on its own
  side, and nothing else changes.
\<close>

definition rested :: "'v book \<Rightarrow> ref \<Rightarrow> int \<Rightarrow> 'v book \<Rightarrow> bool" where
  "rested b r i b' =
     (i = fst (book_volume b) + snd (book_volume b) + 1
      \<and> objs b' = (objs b)(r := (objs b r)\<lparr>oid := i\<rparr>)
      \<and> own (otype (objs b r)) b' = side_put (own (otype (objs b r)) b) r
      \<and> opposing (otype (objs b r)) b' = opposing (otype (objs b r)) b
      \<and> LTP b' = LTP b
      \<and> participants b' = participants b)"

text \<open>
  The sweep of section 4.3, step 3, written after the specification. \<open>level\<close> is the
  queue at one price, oldest first, and \<open>priority_queue\<close> lists the orders of a side in
  the order the specification visits them: price levels best first, each level oldest
  first.
\<close>

definition level :: "(ref \<Rightarrow> order) \<Rightarrow> side \<Rightarrow> rat \<Rightarrow> ref list" where
  "level h s p = filter (\<lambda>x. price (h x) = p) (resting s)"

definition priority_queue :: "(ref \<Rightarrow> order) \<Rightarrow> side \<Rightarrow> ref list" where
  "priority_queue h s = concat (map (level h s) (side_prices h s))"

text \<open>
  \<open>sweep q n xs\<close> takes the resting orders \<open>xs\<close> in turn, with \<open>q\<close> their quantities
  and \<open>n\<close> the remaining quantity of the incoming order. A resting order larger than the
  remainder is executed partially, by the remainder, and the sweep ends; an equal one
  is executed in full and the sweep ends; a smaller one is executed in full, the
  remainder is reduced by its quantity and the sweep goes on. The result is the list of
  the resting orders executed in full, the order executed partially with the amount,
  the remaining quantity of the incoming order, and whether the sweep ended in a match.
\<close>

fun sweep ::
  "(ref \<Rightarrow> int) \<Rightarrow> int \<Rightarrow> ref list \<Rightarrow> ref list \<times> (ref \<times> int) option \<times> int \<times> bool" where
  "sweep q n [] = ([], None, n, False)"
| "sweep q n (x # xs) =
     (if n < q x then ([], Some (x, n), n, True)
      else if n = q x then ([x], None, n, True)
      else (case sweep q (n - q x) xs of
              (full, part, left, matched) \<Rightarrow> (x # full, part, left, matched)))"


text \<open>
  The invariants of section 3 that the sweep relies on, for the incoming order at \<open>r\<close>
  and the opposing side \<open>cs\<close>: the sides are tagged, the incoming order is a \<^verbatim>\<open>BID\<close> or
  an \<^verbatim>\<open>ASK\<close> of positive quantity whose owner is registered and which does not rest on
  the opposing side, and every order resting there carries the tag of that side, has a
  positive quantity and a registered owner, and no two of them share an identifier.
\<close>

definition sweepable :: "'v book \<Rightarrow> ('v book \<Rightarrow> side) \<Rightarrow> ref \<Rightarrow> bool" where
  "sweepable b cs r =
     (tagged b
      \<and> (otype (objs b r) = ''BID'' \<or> otype (objs b r) = ''ASK'')
      \<and> cs = opposing (otype (objs b r))
      \<and> 0 < qty (objs b r)
      \<and> owner (objs b r) \<in> dom (participants b)
      \<and> r \<notin> set (resting (cs b))
      \<and> (\<forall>x \<in> set (resting (cs b)).
            otype (objs b x) = stype (cs b) \<and> 0 < qty (objs b x)
            \<and> owner (objs b x) \<in> dom (participants b))
      \<and> distinct (map (\<lambda>x. oid (objs b x)) (resting (cs b))))"

section \<open>Example books\<close>

definition seller :: participant where
  "seller = \<lparr>name = ''S'', balance = 0, volume = 10\<rparr>"

definition buyer :: participant where
  "buyer = \<lparr>name = ''B'', balance = 100, volume = 0\<rparr>"

definition blank_order :: order where
  "blank_order = \<lparr>oid = 0, owner = [], otype = [], symbol = [], price = 1, qty = 1\<rparr>"

text \<open>
  The order objects of the examples: the resting ask of section 8 at reference 10, and
  four bids that have not been submitted yet.
\<close>

definition demo_store :: "ref \<Rightarrow> order" where
  "demo_store = (\<lambda>_. blank_order)
     (10 := \<lparr>oid = 1, owner = ''S'', otype = ''ASK'', symbol = ''X'', price = 5, qty = 10\<rparr>,
      11 := \<lparr>oid = 0, owner = ''B'', otype = ''BID'', symbol = ''X'', price = 5, qty = 10\<rparr>,
      12 := \<lparr>oid = 0, owner = ''B'', otype = ''BID'', symbol = ''X'', price = 6, qty = 20\<rparr>,
      13 := \<lparr>oid = 0, owner = ''B'', otype = ''BID'', symbol = ''X'', price = 5, qty = 12\<rparr>,
      14 := \<lparr>oid = 0, owner = ''B'', otype = ''BID'', symbol = ''X'', price = 4, qty = 10\<rparr>)"

definition demo_book :: "int book" where
  "demo_book = init_book demo_store ''X'' [seller, buyer] (Some [''tick'' \<mapsto> 1])"

text \<open>The book of the full-match scenario: the ask of 10 units at 5 rests.\<close>

definition ask_book :: "int book" where
  "ask_book = demo_book\<lparr>priv_asks := side_put (asks demo_book) 10\<rparr>"





text \<open>
  A book in which two resting asks share an identifier, as the identifier scheme of
  \<open>add\<close> allows (the volumes can coincide at two moments): 3 units at 5 and 4 units
  at 6 both carry identifier 12, and 5 units at 6 arrived last under identifier 2. The
  bid at reference 33, for 9 units at 6, has not been submitted yet. \<open>dup_after\<close>
  is the book with the ask side empty, 1 unit left on the bid and the last traded
  price at 6.
\<close>

definition dup_store :: "ref \<Rightarrow> order" where
  "dup_store = (\<lambda>_. blank_order)
     (30 := \<lparr>oid = 12, owner = ''S'', otype = ''ASK'', symbol = ''X'', price = 5, qty = 3\<rparr>,
      31 := \<lparr>oid = 12, owner = ''S'', otype = ''ASK'', symbol = ''X'', price = 6, qty = 4\<rparr>,
      32 := \<lparr>oid = 2, owner = ''S'', otype = ''ASK'', symbol = ''X'', price = 6, qty = 5\<rparr>,
      33 := \<lparr>oid = 0, owner = ''B'', otype = ''BID'', symbol = ''X'', price = 6, qty = 9\<rparr>)"

definition dup_book :: "int book" where
  "dup_book =
     (init_book dup_store ''X'' [seller, buyer] None)
       \<lparr>priv_asks := \<lparr>stype = ''ASK'', resting = [30, 31, 32]\<rparr>\<rparr>"

definition dup_after :: "int book" where
  "dup_after =
     dup_book
       \<lparr>objs := (objs dup_book)(33 := (objs dup_book 33)\<lparr>qty := 1\<rparr>),
        priv_asks := \<lparr>stype = ''ASK'', resting = []\<rparr>,
        priv_LTP := 6\<rparr>"


lemmas dup_defs = dup_after_def dup_book_def dup_store_def init_book_def seller_def buyer_def
  blank_order_def


lemmas demo_defs =
  ask_book_def demo_book_def init_book_def demo_store_def seller_def buyer_def blank_order_def

lemmas book_defs =
  participants_def bids_def asks_def LTP_def book_volume_def
  side_prices_def side_best_def side_get_def side_put_def side_remove_def side_volume_def

lemmas exec_defs =
  execute_def payout_def settle_def add_balance_def add_volume_def set_qty_def set_oid_def

lemmas add_defs =
  add_def book_match_def good_price_def rest_bid_def rest_ask_def while_level.simps

section \<open>Parameters and participants\<close>

text \<open>
  C8, at a name the parameter map does not hold: the book is built with the single
  parameter \<open>tick\<close>, and both \<open>get_param\<close> and \<open>set_param\<close> are called with the name
  \<open>depth\<close>. The exception that reaches the caller is \<^verbatim>\<open>NameError\<close>, for the unbound name
  \<^verbatim>\<open>NoSuchParameterError\<close>, and the book is unchanged.
\<close>

theorem param_unknown_name_error:
  "get_param demo_book ''depth'' = Raised (NameError ''NoSuchParameterError'') demo_book
   \<and> set_param demo_book ''depth'' 7 = Raised (NameError ''NoSuchParameterError'') demo_book"
  by (simp add: get_param_def set_param_def demo_defs)

text \<open>For a name the map holds, \<open>set_param\<close> stores the value and \<open>get_param\<close> returns it.\<close>

lemma param_known:
  "priv_params b n = Some v0 \<Longrightarrow>
     \<exists>b'. set_param b n v = Returned () b' \<and> get_param b' n = Returned v b'"
  by (auto simp: get_param_def set_param_def)

text \<open>
  C10: for a participant whose name is not registered, \<open>add_participant\<close> returns
  without an exception and leaves the book as it was, the participant map included; the
  new entry exists only in the copy. For a registered name it raises
  \<^verbatim>\<open>ParticipantAlreadyExistsError\<close>.
\<close>

theorem add_participant_frame:
  "(name p \<notin> dom (participants b) \<longrightarrow>
      add_participant b p = Returned () b \<and> add_participant_copy b p (name p) = Some p)
   \<and> (name p \<in> dom (participants b) \<longrightarrow>
      add_participant b p = Raised ParticipantAlreadyExistsError b)"
  by (simp add: add_participant_def add_participant_copy_def participants_def)

theorem add_participant_frame_witness:
  "name \<lparr>name = ''N'', balance = 1, volume = 1\<rparr> \<notin> dom (participants demo_book)
   \<and> add_participant demo_book \<lparr>name = ''N'', balance = 1, volume = 1\<rparr> = Returned () demo_book
   \<and> participants demo_book ''N'' = None
   \<and> name seller \<in> dom (participants demo_book)
   \<and> add_participant demo_book seller = Raised ParticipantAlreadyExistsError demo_book"
  using add_participant_frame [of "\<lparr>name = ''N'', balance = 1, volume = 1\<rparr>" demo_book]
    add_participant_frame [of seller demo_book]
  by (simp add: participants_def demo_defs)

section \<open>Admission\<close>

text \<open>
  C3: a \<^verbatim>\<open>BID\<close> whose price times quantity exceeds the balance of its (registered)
  submitter, and an \<^verbatim>\<open>ASK\<close> whose quantity exceeds the submitter's position, make \<open>add\<close>
  raise \<^verbatim>\<open>InsufficientFundsError\<close>; the state the call leaves behind is the state it
  found, so the order is on no side, nothing was matched and no ledger entry changed.
\<close>

theorem add_insufficient_funds:
  assumes "participants b (owner (objs b r)) = Some p"
    and "(otype (objs b r) = ''BID'' \<and> price (objs b r) * of_int (qty (objs b r)) > balance p)
         \<or> (otype (objs b r) = ''ASK'' \<and> qty (objs b r) > volume p)"
  shows "add b r = Some (Raised InsufficientFundsError b)"
  using assms by (auto simp: add_def)

theorem add_insufficient_funds_witness:
  "participants ask_book (owner (objs ask_book 12)) = Some buyer
   \<and> otype (objs ask_book 12) = ''BID''
   \<and> price (objs ask_book 12) * of_int (qty (objs ask_book 12)) > balance buyer
   \<and> add ask_book 12 = Some (Raised InsufficientFundsError ask_book)
   \<and> 12 \<notin> set (resting (bids ask_book)) \<union> set (resting (asks ask_book))"
proof -
  have h1: "participants ask_book (owner (objs ask_book 12)) = Some buyer"
    by (simp add: demo_defs book_defs)
  have h2: "otype (objs ask_book 12) = ''BID''
      \<and> price (objs ask_book 12) * of_int (qty (objs ask_book 12)) > balance buyer"
    by (simp add: demo_defs book_defs)
  have h3: "12 \<notin> set (resting (bids ask_book)) \<union> set (resting (asks ask_book))"
    by (simp add: demo_defs book_defs)
  from add_insufficient_funds [OF h1 disjI1 [OF h2]] h1 h2 h3 show ?thesis by simp
qed

section \<open>Cancellation\<close>

text \<open>
  C9: \<open>cancel\<close> always returns. It takes every order with the identifier off both sides
  and leaves the other orders in place, it changes no order object and no participant,
  a second call with the same identifier changes nothing, and so does a call with an
  identifier that rests on neither side.
\<close>

theorem cancel_removes:
  "\<exists>b'. cancel b i = Returned () b'
     \<and> resting (bids b') = filter (\<lambda>r. oid (objs b r) \<noteq> i) (resting (bids b))
     \<and> resting (asks b') = filter (\<lambda>r. oid (objs b r) \<noteq> i) (resting (asks b))
     \<and> objs b' = objs b
     \<and> participants b' = participants b
     \<and> cancel b' i = Returned () b'
     \<and> ((\<forall>r \<in> set (resting (bids b)) \<union> set (resting (asks b)). oid (objs b r) \<noteq> i)
          \<longrightarrow> b' = b)"
  by (simp add: cancel_def bids_def asks_def side_remove_def participants_def Let_def
      filter_id_conv)

theorem cancel_removes_witness:
  "resting (bids ask_book) = [] \<and> resting (asks ask_book) = [10] \<and> oid (objs ask_book 10) = 1
   \<and> cancel ask_book 99 = Returned () ask_book
   \<and> (\<exists>b'. cancel ask_book 1 = Returned () b'
          \<and> resting (asks b') = [] \<and> cancel b' 1 = Returned () b'
          \<and> participants b' = participants ask_book)"
proof -
  have a: "resting (bids ask_book) = []" "resting (asks ask_book) = [10]"
    "oid (objs ask_book 10) = 1"
    by (simp_all add: demo_defs book_defs)
  then have h: "\<forall>r \<in> set (resting (bids ask_book)) \<union> set (resting (asks ask_book)).
       oid (objs ask_book r) \<noteq> 99"
    by simp
  from cancel_removes [of ask_book 99] h have "cancel ask_book 99 = Returned () ask_book"
    by auto
  moreover from cancel_removes [of ask_book 1] a
  have "\<exists>b'. cancel ask_book 1 = Returned () b'
          \<and> resting (asks b') = [] \<and> cancel b' 1 = Returned () b'
          \<and> participants b' = participants ask_book"
    by auto
  ultimately show ?thesis using a by blast
qed

section \<open>Settlement\<close>

text \<open>
  C1, at the full-match scenario: the ask of 10 units at 5 from \<open>S\<close> (position 10)
  rests, and the bid of 10 units at 5 from \<open>B\<close> (balance 100) is submitted. The call
  returns, both sides are empty afterwards and the last traded price is 5, but the
  participant view shows \<open>B\<close> and \<open>S\<close> with the balance and the position they had before:
  no ledger entry has changed.
\<close>

theorem full_match_ledger_unchanged:
  "balance buyer = 100 \<and> volume buyer = 0 \<and> balance seller = 0 \<and> volume seller = 10
   \<and> participants ask_book ''B'' = Some buyer \<and> participants ask_book ''S'' = Some seller
   \<and> (\<exists>b'. add ask_book 11 = Some (Returned None b')
         \<and> resting (bids b') = [] \<and> resting (asks b') = [] \<and> LTP b' = 5
         \<and> participants b' ''B'' = Some buyer \<and> participants b' ''S'' = Some seller)"
  by (simp add: demo_defs book_defs exec_defs add_defs)

text \<open>
  The amounts of the scenario are computed, on the copies: settling the bid in full
  leaves one copy in which the balance of \<open>B\<close> is 50 lower and one in which the position
  of \<open>B\<close> is 10 higher.
\<close>

lemma payout_updates_copies:
  "\<exists>c1 c2. payout ask_book (bids ask_book) (objs ask_book 11) None = Inr [c1, c2]
     \<and> c1 ''B'' = Some (buyer\<lparr>balance := 50\<rparr>) \<and> c2 ''B'' = Some (buyer\<lparr>volume := 10\<rparr>)"
  by (simp add: demo_defs book_defs exec_defs)

section \<open>What execution and matching leave unchanged\<close>

lemma evolves_refl: "evolves b b"
  by (simp add: evolves_def)

lemma evolves_trans: "evolves a b \<Longrightarrow> evolves b c \<Longrightarrow> evolves a c"
  unfolding evolves_def by (metis subset_trans)

lemma payout_Inl: "payout b sd ord amt = Inl e \<Longrightarrow> e = KeyError (owner ord)"
  by (auto simp: payout_def settle_def add_balance_def add_volume_def
      split: if_splits option.splits sum.splits)

lemma execute_Raised:
  "execute b r amt = Raised e b' \<Longrightarrow> b' = b \<and> e = KeyError (owner (objs b r))"
  by (auto simp: execute_def Let_def split: if_splits sum.splits dest: payout_Inl)

lemma execute_evolves: "execute b r amt = Returned u b' \<Longrightarrow> evolves b b'"
  by (auto simp: execute_def Let_def evolves_def set_qty_def side_remove_def bids_def asks_def
      split: if_splits sum.splits)

lemma for_orders_Raised:
  "for_orders b r lv = Raised e b' \<Longrightarrow> (\<exists>k. e = KeyError k) \<and> evolves b b'"
proof (induction lv arbitrary: b)
  case Nil
  then show ?case by simp
next
  case (Cons x xs)
  show ?case
    using Cons.prems
    by (auto simp: evolves_refl split: if_splits outcome.splits
        dest!: execute_Raised execute_evolves Cons.IH intro: evolves_trans)
qed

lemma for_orders_evolves: "for_orders b r lv = Returned m b' \<Longrightarrow> evolves b b'"
proof (induction lv arbitrary: b)
  case Nil
  then show ?case by (simp add: evolves_refl)
next
  case (Cons x xs)
  show ?case
    using Cons.prems
    by (auto split: if_splits outcome.splits
        dest!: execute_evolves Cons.IH intro: evolves_trans)
qed

lemma side_get_Inl: "side_get h s p = Inl e \<Longrightarrow> e = NoPriceError"
  by (auto simp: side_get_def split: list.splits)

lemma while_level_sound:
  assumes "while_level b cs r p lvl = Some y"
  shows "(case y of
            Raised e b' \<Rightarrow> (\<exists>k. e = KeyError k) \<and> evolves b b'
          | Returned v b' \<Rightarrow> evolves b b')"
proof (rule while_level.raw_induct
    [where P = "\<lambda>b cs r p lvl y. case y of
                  Raised e b' \<Rightarrow> (\<exists>k. e = KeyError k) \<and> evolves b b'
                | Returned v b' \<Rightarrow> evolves b b'", OF _ assms], goal_cases)
  case (1 wl b cs r p lvl y)
  show ?case
  proof (cases "side_get (objs b) (cs b) p")
    case (Inl e)
    with 1(2) show ?thesis
      by (auto simp: evolves_refl dest: side_get_Inl split: if_splits)
  next
    case (Inr lv)
    show ?thesis
    proof (cases "for_orders b r lv")
      case (Raised e b1)
      with Inr 1(2) show ?thesis
        by (auto dest: for_orders_Raised)
    next
      case (Returned m b1)
      then have ev: "evolves b b1" by (rule for_orders_evolves)
      show ?thesis
      proof (cases m)
        case True
        with Inr Returned 1(2) ev show ?thesis by auto
      next
        case False
        with Inr Returned 1(2) have "wl b1 cs r p (Some lv) = Some y" by simp
        note ih = 1(1) [OF this]
        from ih ev show ?thesis
          by (cases y) (auto intro: evolves_trans)
      qed
    qed
  qed
qed

lemma for_prices_sound:
  assumes "for_prices b cs r ps lvl = Some y"
  shows "(case y of
            Raised e b' \<Rightarrow>
              e \<noteq> InsufficientVolumeError \<and> e \<noteq> PriceOutOfRangeError \<and> evolves b b'
          | Returned v b' \<Rightarrow> evolves b b')"
  using assms
proof (induction ps arbitrary: b lvl)
  case Nil
  then show ?case by (auto simp: evolves_refl)
next
  case (Cons p ps)
  from Cons.prems obtain z where z: "while_level b cs r p lvl = Some z"
    by (auto split: option.splits)
  note wl = while_level_sound [OF z]
  show ?case
  proof (cases z)
    case (Raised e b1)
    with z wl Cons.prems show ?thesis by auto
  next
    case (Returned v b1)
    obtain m lvl1 where v: "v = (m, lvl1)" by (cases v)
    from Returned wl have ev: "evolves b b1" by simp
    show ?thesis
    proof (cases "m \<or> lvl1 = None \<or> lvl1 = Some []")
      case True
      with z Returned v ev Cons.prems show ?thesis by (auto split: if_splits)
    next
      case False
      with z Returned v Cons.prems have "for_prices b1 cs r ps lvl1 = Some y"
        by (auto split: option.splits)
      from Cons.IH [OF this] ev show ?thesis
        by (auto split: outcome.splits intro: evolves_trans)
    qed
  qed
qed

lemma good_price_Inl:
  "good_price b sd ord = Inl e \<Longrightarrow> e \<noteq> InsufficientVolumeError \<and> e \<noteq> PriceOutOfRangeError"
  by (auto simp: good_price_def side_best_def split: if_splits sum.splits list.splits)

lemma book_match_Raised:
  assumes "book_match b cs r = Some (Raised e b')"
  shows "evolves b b'"
    and "e = InsufficientVolumeError \<or> e = PriceOutOfRangeError \<Longrightarrow> b' = b"
    and "e = InsufficientVolumeError \<Longrightarrow>
           good_price b (cs b) (objs b r) = Inr True
           \<and> side_volume (objs b) (cs b) < qty (objs b r)"
    and "e = PriceOutOfRangeError \<Longrightarrow> good_price b (cs b) (objs b r) = Inr False"
  using assms
  by (auto simp: book_match_def evolves_refl split: sum.splits if_splits
      dest!: for_prices_sound good_price_Inl)

lemma book_match_Returned:
  assumes "book_match b cs r = Some (Returned u b')"
  shows "evolves b b'"
  using assms
  by (auto simp: book_match_def split: sum.splits if_splits dest!: for_prices_sound)

section \<open>Resting and matching on admission\<close>

lemma good_price_tagged:
  assumes "tagged b" and "t = ''BID'' \<or> t = ''ASK''"
    and "side_best (objs b) (opposing t b) = Inr bp"
  shows "good_price b (opposing t b) ord
           = Inr (if t = ''BID'' then price ord \<ge> bp else price ord \<le> bp)"
  using assms by (auto simp: good_price_def tagged_def opposing_def)

lemma admitted_cases:
  assumes "admitted b r"
  obtains p where "participants b (owner (objs b r)) = Some p"
    and "otype (objs b r) = ''BID''"
    and "price (objs b r) * of_int (qty (objs b r)) \<le> balance p"
  | p where "participants b (owner (objs b r)) = Some p"
    and "otype (objs b r) = ''ASK''" and "qty (objs b r) \<le> volume p"
  using assms by (auto simp: admitted_def split: option.splits)

lemma add_admitted:
  assumes "admitted b r"
  shows "add b r =
     (case book_match b (opposing (otype (objs b r))) r of
        None \<Rightarrow> None
      | Some (Raised e b1) \<Rightarrow>
          (if e = InsufficientVolumeError \<or> e = PriceOutOfRangeError
           then Some (if otype (objs b r) = ''BID'' then rest_bid b1 r else rest_ask b1 r)
           else Some (Raised e b1))
      | Some (Returned u b1) \<Rightarrow> Some (Returned None b1))"
  using assms
  by (rule admitted_cases)
    (auto simp: add_def opposing_def Let_def split: option.splits outcome.splits)

lemma rest_bid_state:
  "\<exists>b'. rest_bid b r = Returned (Some (fst (book_volume b) + snd (book_volume b) + 1)) b'
     \<and> objs b' = (objs b)(r := (objs b r)\<lparr>oid := fst (book_volume b) + snd (book_volume b) + 1\<rparr>)
     \<and> bids b' = side_put (bids b) r \<and> asks b' = asks b
     \<and> LTP b' = LTP b \<and> participants b' = participants b"
  by (simp add: rest_bid_def set_oid_def Let_def bids_def asks_def LTP_def participants_def)

lemma rest_ask_state:
  "\<exists>b'. rest_ask b r = Returned (Some (fst (book_volume b) + snd (book_volume b) + 1)) b'
     \<and> objs b' = (objs b)(r := (objs b r)\<lparr>oid := fst (book_volume b) + snd (book_volume b) + 1\<rparr>)
     \<and> asks b' = side_put (asks b) r \<and> bids b' = bids b
     \<and> LTP b' = LTP b \<and> participants b' = participants b"
  by (simp add: rest_ask_def set_oid_def Let_def bids_def asks_def LTP_def participants_def)

lemma rest_rested:
  assumes "t = otype (objs b r)"
  shows "\<exists>i b'. (if t = ''BID'' then rest_bid b r else rest_ask b r) = Returned (Some i) b'
           \<and> rested b r i b'"
  using rest_bid_state [of b r] rest_ask_state [of b r] assms
  by (auto simp: rested_def own_def opposing_def)

lemma rest_rested_rev:
  assumes "(if otype (objs b r) = ''BID'' then rest_bid b r else rest_ask b r) = Returned v b'"
  shows "\<exists>i. v = Some i \<and> rested b r i b'"
  using rest_rested [of "otype (objs b r)" b r] assms by auto

lemma rested_findable:
  assumes "rested b r i b'"
  shows "\<exists>lv. side_get (objs b') (own (otype (objs b r)) b') (price (objs b r)) = Inr lv
           \<and> r \<in> set lv"
    and "oid (objs b' r) = i" and "qty (objs b' r) = qty (objs b r)"
    and "price (objs b' r) = price (objs b r)"
    and "resting (own (otype (objs b r)) b') = resting (own (otype (objs b r)) b) @ [r]"
    and "\<forall>x. qty (objs b' x) = qty (objs b x)"
proof -
  let ?t = "otype (objs b r)"
  from assms have o: "objs b' = (objs b)(r := (objs b r)\<lparr>oid := i\<rparr>)"
    and s: "own ?t b' = side_put (own ?t b) r"
    by (simp_all add: rested_def)
  have "filter (\<lambda>x. price (objs b' x) = price (objs b r)) (resting (own ?t b')) \<noteq> []"
    by (simp add: o s side_put_def)
  moreover have "r \<in> set (filter (\<lambda>x. price (objs b' x) = price (objs b r)) (resting (own ?t b')))"
    by (simp add: o s side_put_def)
  ultimately show "\<exists>lv. side_get (objs b') (own ?t b') (price (objs b r)) = Inr lv \<and> r \<in> set lv"
    by (cases "filter (\<lambda>x. price (objs b' x) = price (objs b r)) (resting (own ?t b'))")
      (simp_all add: side_get_def)
  show "oid (objs b' r) = i" "qty (objs b' r) = qty (objs b r)"
    "price (objs b' r) = price (objs b r)" "\<forall>x. qty (objs b' x) = qty (objs b x)"
    by (simp_all add: o)
  show "resting (own ?t b') = resting (own ?t b) @ [r]"
    by (simp add: s side_put_def)
qed


text \<open>
  C5: an admitted \<^verbatim>\<open>BID\<close> priced below the best ask, and an admitted \<^verbatim>\<open>ASK\<close> priced
  above the best bid, make \<^verbatim>\<open>_match\<close> raise \<^verbatim>\<open>PriceOutOfRangeError\<close> with the book
  untouched; \<open>add\<close> catches it and appends the order to its own side at its own price.
  Nothing is executed: the opposing side, every quantity, every participant and the
  last traded price are what they were.
\<close>

theorem add_rests_on_price_out_of_range:
  assumes "tagged b" and "admitted b r"
    and "side_best (objs b) (opposing (otype (objs b r)) b) = Inr bp"
    and "(otype (objs b r) = ''BID'' \<and> price (objs b r) < bp)
         \<or> (otype (objs b r) = ''ASK'' \<and> price (objs b r) > bp)"
  shows "book_match b (opposing (otype (objs b r))) r = Some (Raised PriceOutOfRangeError b)
    \<and> (\<exists>i b'. add b r = Some (Returned (Some i) b')
          \<and> resting (own (otype (objs b r)) b') = resting (own (otype (objs b r)) b) @ [r]
          \<and> price (objs b' r) = price (objs b r)
          \<and> opposing (otype (objs b r)) b' = opposing (otype (objs b r)) b
          \<and> (\<forall>x. qty (objs b' x) = qty (objs b x))
          \<and> participants b' = participants b
          \<and> LTP b' = LTP b)"
proof -
  let ?t = "otype (objs b r)"
  from assms(2) have t: "?t = ''BID'' \<or> ?t = ''ASK''"
    by (rule admitted_cases) simp_all
  from good_price_tagged [OF assms(1) t assms(3)] assms(4)
  have gp: "good_price b (opposing ?t b) (objs b r) = Inr False" by auto
  then have m: "book_match b (opposing ?t) r = Some (Raised PriceOutOfRangeError b)"
    by (simp add: book_match_def)
  from rest_rested [of ?t b r] obtain i b'
    where r: "(if ?t = ''BID'' then rest_bid b r else rest_ask b r) = Returned (Some i) b'"
      and rs: "rested b r i b'" by auto
  from m r have "add b r = Some (Returned (Some i) b')"
    by (simp add: add_admitted [OF assms(2)])
  moreover from rs have "opposing ?t b' = opposing ?t b" "participants b' = participants b"
    "LTP b' = LTP b" by (simp_all add: rested_def)
  ultimately show ?thesis using m rested_findable [OF rs] by blast
qed

lemma add_Some_admitted:
  assumes "add b r = Some (Returned (Some i) b')"
  shows "admitted b r"
  using assms
  by (auto simp: add_def admitted_def Let_def split: if_splits option.splits)


text \<open>
  Conversely, \<open>add\<close> returns an identifier only from its two handlers: the order was
  admitted, \<^verbatim>\<open>_match\<close> raised one of the two signals with the book untouched, and the
  identifier is the one above.
\<close>

lemma add_returns_identifier_only_on_signal:
  assumes "add b r = Some (Returned (Some i) b')"
  shows "admitted b r
    \<and> i = fst (book_volume b) + snd (book_volume b) + 1
    \<and> (book_match b (opposing (otype (objs b r))) r = Some (Raised InsufficientVolumeError b)
       \<or> book_match b (opposing (otype (objs b r))) r = Some (Raised PriceOutOfRangeError b))"
proof -
  let ?t = "otype (objs b r)"
  note adm = add_Some_admitted [OF assms]
  from assms obtain e b1 where m: "book_match b (opposing ?t) r = Some (Raised e b1)"
    and e: "e = InsufficientVolumeError \<or> e = PriceOutOfRangeError"
    and r: "(if ?t = ''BID'' then rest_bid b1 r else rest_ask b1 r) = Returned (Some i) b'"
    by (auto simp: add_admitted [OF adm] split: option.splits outcome.splits if_splits)
  from book_match_Raised(2) [OF m e] have b1: "b1 = b" .
  from rest_rested_rev [OF r [unfolded b1]] have rs: "rested b r i b'" by simp
  with adm m e b1 show ?thesis
    by (auto simp: rested_def)
qed

text \<open>
  C7: when \<^verbatim>\<open>_match\<close> returns for an admitted order, \<open>add\<close> falls off its end and
  returns \<^verbatim>\<open>None\<close>, no identifier; it never puts the order on a side, so an incoming
  order that did not rest before the call rests on neither side after it.
\<close>

theorem add_matched_returns_none:
  assumes "admitted b r"
    and "book_match b (opposing (otype (objs b r))) r = Some (Returned u b1)"
  shows "add b r = Some (Returned None b1)
    \<and> (r \<notin> set (resting (bids b)) \<union> set (resting (asks b))
        \<longrightarrow> r \<notin> set (resting (bids b1)) \<union> set (resting (asks b1)))"
proof -
  from assms have "add b r = Some (Returned None b1)"
    by (simp add: add_admitted)
  moreover from book_match_Returned [OF assms(2)]
  have "set (resting (bids b1)) \<subseteq> set (resting (bids b))"
    "set (resting (asks b1)) \<subseteq> set (resting (asks b))"
    by (simp_all add: evolves_def bids_def asks_def)
  ultimately show ?thesis by blast
qed

lemma add_ledger_frame:
  assumes "add b r = Some y"
  shows "participants (final y) = participants b"
proof -
  have m: "book_match b cs r = Some z \<Longrightarrow> participants (final z) = participants b" for cs z
    by (cases z) (auto dest!: book_match_Raised(1) book_match_Returned
        simp: evolves_def participants_def)
  have rb: "participants (final (rest_bid b1 r)) = participants b1" for b1 :: "'a book"
    using rest_bid_state [of b1 r] by auto
  have ra: "participants (final (rest_ask b1 r)) = participants b1" for b1 :: "'a book"
    using rest_ask_state [of b1 r] by auto
  from assms show ?thesis
    by (auto simp: add_def Let_def rb ra split: if_splits option.splits outcome.splits
        dest!: m)
qed

subsection \<open>The theorems at the example book\<close>

lemma ask_book_facts:
  "tagged ask_book"
  "resting (bids ask_book) = []"
  "resting (asks ask_book) = [10]"
  "side_best (objs ask_book) (asks ask_book) = Inr 5"
  "side_volume (objs ask_book) (asks ask_book) = 10"
  "book_volume ask_book = (0, 10)"
  "LTP ask_book = 0"
  by (simp_all add: tagged_def demo_defs book_defs)

lemma ask_book_orders:
  "objs ask_book 11 = \<lparr>oid = 0, owner = ''B'', otype = ''BID'', symbol = ''X'', price = 5, qty = 10\<rparr>"
  "objs ask_book 13 = \<lparr>oid = 0, owner = ''B'', otype = ''BID'', symbol = ''X'', price = 5, qty = 12\<rparr>"
  "objs ask_book 14 = \<lparr>oid = 0, owner = ''B'', otype = ''BID'', symbol = ''X'', price = 4, qty = 10\<rparr>"
  "admitted ask_book 11" "admitted ask_book 13" "admitted ask_book 14"
  by (simp_all add: admitted_def demo_defs book_defs)

lemma side_of_tag:
  "opposing ''BID'' = asks" "opposing ''ASK'' = bids" "own ''BID'' = bids" "own ''ASK'' = asks"
  by (simp_all add: opposing_def own_def)


theorem add_rests_on_price_out_of_range_witness:
  "tagged ask_book \<and> admitted ask_book 14
   \<and> side_best (objs ask_book) (asks ask_book) = Inr 5
   \<and> otype (objs ask_book 14) = ''BID'' \<and> price (objs ask_book 14) = 4
   \<and> (\<exists>i b'. add ask_book 14 = Some (Returned (Some i) b')
         \<and> resting (bids b') = [14] \<and> price (objs b' 14) = 4
         \<and> asks b' = asks ask_book \<and> LTP b' = 0)"
proof -
  have o: "opposing (otype (objs ask_book 14)) = asks" "own (otype (objs ask_book 14)) = bids"
    by (simp_all add: ask_book_orders opposing_def own_def)
  have h3: "side_best (objs ask_book) (opposing (otype (objs ask_book 14)) ask_book) = Inr 5"
    by (simp add: o ask_book_facts)
  have h4: "(otype (objs ask_book 14) = ''BID'' \<and> price (objs ask_book 14) < 5)
         \<or> (otype (objs ask_book 14) = ''ASK'' \<and> price (objs ask_book 14) > 5)"
    by (simp add: ask_book_orders)
  from add_rests_on_price_out_of_range [OF ask_book_facts(1) ask_book_orders(6) h3 h4]
  show ?thesis
    by (auto simp: side_of_tag ask_book_facts ask_book_orders)
qed





lemma match_ask_book_full:
  "\<exists>b1. book_match ask_book asks 11 = Some (Returned () b1)"
  by (simp add: demo_defs book_defs exec_defs add_defs)

theorem add_matched_returns_none_witness:
  "admitted ask_book 11
   \<and> resting (bids ask_book) = [] \<and> resting (asks ask_book) = [10]
   \<and> (\<exists>b1. book_match ask_book asks 11 = Some (Returned () b1)
         \<and> add ask_book 11 = Some (Returned None b1)
         \<and> 11 \<notin> set (resting (bids b1)) \<and> 11 \<notin> set (resting (asks b1)))"
proof -
  from match_ask_book_full obtain b1 where m: "book_match ask_book asks 11 = Some (Returned () b1)" ..
  have o: "opposing (otype (objs ask_book 11)) = asks"
    by (simp add: ask_book_orders opposing_def)
  from add_matched_returns_none [OF ask_book_orders(4) m [folded o]] m
  show ?thesis
    by (auto simp: ask_book_facts ask_book_orders(4))
qed

section \<open>The sweep of the opposing side\<close>

subsection \<open>The sweep of the specification\<close>



lemma sweep_left_pos:
  "0 < n \<Longrightarrow> sweep q n xs = (full, part, left, m) \<Longrightarrow> 0 < left"
proof (induction xs arbitrary: n full)
  case Nil
  then show ?case by simp
next
  case (Cons x xs)
  show ?case
  proof (cases "q x < n")
    case True
    with Cons.prems obtain f where s: "sweep q (n - q x) xs = (f, part, left, m)"
      by (auto split: prod.splits)
    from True have "0 < n - q x" by simp
    from Cons.IH [OF this s] show ?thesis .
  next
    case False
    with Cons.prems show ?thesis by (auto split: if_splits)
  qed
qed


subsection \<open>Execution in a book that can be swept\<close>























lemma side_prices_levels:
  "distinct (side_prices h s)"
  "p \<in> set (side_prices h s) \<Longrightarrow> level h s p \<noteq> []"
  by (auto simp: side_prices_def level_def Let_def filter_empty_conv split: if_splits)





subsection \<open>Two resting orders that share an identifier\<close>


text \<open>
  Of the invariants of section 3 the book \<open>dup_book\<close> breaks only the one on the
  identifiers.
\<close>

lemma dup_book_invariants:
  "owner (objs dup_book 33) \<in> dom (participants dup_book)"
  "33 \<notin> set (resting (asks dup_book))"
  "\<forall>x \<in> set (resting (asks dup_book)).
      otype (objs dup_book x) = stype (asks dup_book) \<and> 0 < qty (objs dup_book x)
      \<and> owner (objs dup_book x) \<in> dom (participants dup_book)"
  "\<not> distinct (map (\<lambda>x. oid (objs dup_book x)) (resting (asks dup_book)))"
  "\<not> sweepable dup_book asks 33"
  by (simp_all add: sweepable_def dup_defs book_defs)





subsection \<open>The volume test guarantees a match\<close>

text \<open>
  A sweep that runs out of orders has met less volume than the incoming order asks for;
  the volume of the priority queue is the volume of the side. So an incoming order of
  positive quantity that passes the volume test ends its sweep in a match.
\<close>

lemma sweep_unmatched:
  "0 < n \<Longrightarrow> sweep q n xs = (full, part, left, False) \<Longrightarrow> sum_list (map q xs) < n"
proof (induction xs arbitrary: n full)
  case Nil
  then show ?case by simp
next
  case (Cons x xs)
  from Cons.prems(2) have g: "q x < n"
    by (auto split: if_splits)
  with Cons.prems(2) obtain f where s: "sweep q (n - q x) xs = (f, part, left, False)"
    by (auto split: prod.splits)
  from g have "0 < n - q x" by simp
  from Cons.IH [OF this s] show ?case by simp
qed

lemma sum_list_filter_disjoint:
  fixes q :: "'a \<Rightarrow> int"
  assumes "\<And>x. \<not> (P x \<and> Q x)"
  shows "sum_list (map q (filter (\<lambda>x. P x \<or> Q x) xs))
           = sum_list (map q (filter P xs)) + sum_list (map q (filter Q xs))"
  using assms by (induction xs) auto

lemma sum_list_by_key:
  fixes q :: "'a \<Rightarrow> int"
  assumes "distinct ps"
  shows "sum_list (map q (concat (map (\<lambda>p. filter (\<lambda>x. f x = p) xs) ps)))
           = sum_list (map q (filter (\<lambda>x. f x \<in> set ps) xs))"
  using assms
proof (induction ps)
  case Nil
  then show ?case by simp
next
  case (Cons p ps)
  then have d: "\<And>x. \<not> (f x = p \<and> f x \<in> set ps)" by auto
  from Cons show ?case
    by (simp add: sum_list_filter_disjoint [OF d])
qed

lemma priority_queue_volume:
  "sum_list (map (\<lambda>x. qty (h x)) (priority_queue h s)) = side_volume h s"
proof -
  have "filter (\<lambda>x. price (h x) \<in> set (side_prices h s)) (resting s) = resting s"
    by (auto simp: side_prices_def Let_def filter_id_conv)
  with sum_list_by_key [OF side_prices_levels(1), of "\<lambda>x. qty (h x)" "\<lambda>x. price (h x)"
      "resting s" h s]
  show ?thesis
    by (simp add: priority_queue_def level_def [abs_def] side_volume_def)
qed

lemma sufficient_volume_matches:
  assumes "0 < qty (objs b r)" and "qty (objs b r) \<le> side_volume (objs b) (cs b)"
    and "sweep (\<lambda>x. qty (objs b x)) (qty (objs b r)) (priority_queue (objs b) (cs b))
           = (full, part, left, m)"
  shows m
proof (rule ccontr)
  assume "\<not> m"
  with assms(3) sweep_unmatched [OF assms(1), of "\<lambda>x. qty (objs b x)"]
  have "sum_list (map (\<lambda>x. qty (objs b x)) (priority_queue (objs b) (cs b))) < qty (objs b r)"
    by simp
  with assms(2) show False by (simp add: priority_queue_volume)
qed

section \<open>An empty opposing side\<close>




end
